theory Spec2Isabelle
  imports Complex_Main "HOL-Library.Word"
begin

unbundle bit_operations_syntax

section \<open>The object tracking script \<open>main.py\<close>\<close>

text \<open>
  The script is a straight line of calls into OpenCV and matplotlib around one loop.
  The libraries are outside the repository, so the model takes them as an environment:
  whether the video file opens, the images it decodes to, the results of the successive
  key polls and the tracker objects the factories return. Every library call of the
  script is recorded, in order, in a trace; what is drawn on a frame is recorded in the
  frame itself.

  A bounding box holds four Python numbers, each an int (as in the seed box of the script
  and in the boxes of the trackers of the current OpenCV interface) or a float (as in the
  boxes of the \<open>cv2.legacy\<close> trackers). The arithmetic of floats is a parameter of the
  model: nothing is assumed about how floats are added or converted.
\<close>

subsection \<open>Frames and drawing\<close>

text \<open>
  A Python number: an int, or a finite float of an unspecified carrier \<open>'r\<close>. The float
  operations the script uses come with the carrier: the sum of two floats, the float of
  an int (taken when an int and a float are added) and \<open>int(x)\<close> on a float.
\<close>

datatype 'r pynum = PyInt int | PyFloat 'r

record 'r float_ops =
  float_add :: "'r \<Rightarrow> 'r \<Rightarrow> 'r"
  float_of_int :: "int \<Rightarrow> 'r"
  float_to_int :: "'r \<Rightarrow> int"

type_synonym 'r bbox = "'r pynum \<times> 'r pynum \<times> 'r pynum \<times> 'r pynum"
type_synonym point = "int \<times> int"
type_synonym color = "int \<times> int \<times> int"

datatype font = FONT_HERSHEY_SIMPLEX

datatype draw_op =
    Rectangle point point color int int
  | PutText string point font int color int
  | CvtColor

text \<open>A frame is the decoded image and the drawing calls applied to it so far.\<close>

record 'i frame =
  pixels :: 'i
  drawn :: "draw_op list"

text \<open>\<open>int(x)\<close>: an int is returned unchanged, a float is converted.\<close>

fun py_int :: "'r float_ops \<Rightarrow> 'r pynum \<Rightarrow> int" where
  "py_int ar (PyInt n) = n"
| "py_int ar (PyFloat x) = float_to_int ar x"

text \<open>\<open>x + y\<close>: the sum of two ints is an int; otherwise the sum is taken in floats.\<close>

fun py_add :: "'r float_ops \<Rightarrow> 'r pynum \<Rightarrow> 'r pynum \<Rightarrow> 'r pynum" where
  "py_add ar (PyInt a) (PyInt b) = PyInt (a + b)"
| "py_add ar (PyInt a) (PyFloat y) = PyFloat (float_add ar (float_of_int ar a) y)"
| "py_add ar (PyFloat x) (PyInt b) = PyFloat (float_add ar x (float_of_int ar b))"
| "py_add ar (PyFloat x) (PyFloat y) = PyFloat (float_add ar x y)"

text \<open>
  \<^verbatim>\<open>
  def drawRectangle(frame, bbox):
      p1 = (int(bbox[0]), int(bbox[1]))
      p2 = (int(bbox[0] + bbox[2]), int(bbox[1] + bbox[3]))
      cv2.rectangle(frame, p1, p2, (255, 0, 0), 2, 1)
  \<close>
\<close>

fun drawRectangle :: "'r float_ops \<Rightarrow> 'i frame \<Rightarrow> 'r bbox \<Rightarrow> 'i frame" where
  "drawRectangle ar frame (b0, b1, b2, b3) =
     (let p1 = (py_int ar b0, py_int ar b1);
          p2 = (py_int ar (py_add ar b0 b2), py_int ar (py_add ar b1 b3))
      in frame\<lparr>drawn := drawn frame @ [Rectangle p1 p2 (255, 0, 0) 2 1]\<rparr>)"

text \<open>
  \<^verbatim>\<open>
  def drawText(frame, txt, location, color=(50, 170, 50)):
      cv2.putText(frame, txt, location, cv2.FONT_HERSHEY_SIMPLEX, 1, color, 3)
  \<close>
\<close>

definition drawText :: "'i frame \<Rightarrow> string \<Rightarrow> point \<Rightarrow> color \<Rightarrow> 'i frame" where
  "drawText frame txt location color =
     frame\<lparr>drawn := drawn frame @ [PutText txt location FONT_HERSHEY_SIMPLEX 1 color 3]\<rparr>"

definition default_color :: color where
  "default_color = (50, 170, 50)"

subsection \<open>Tracker selection\<close>

datatype tracker_kind =
  BOOSTING | MIL | KCF | CSRT | TLD | MEDIANFLOW | GOTURN | MOSSE

definition tracker_types :: "string list" where
  "tracker_types =
     [''BOOSTING'', ''MIL'', ''KCF'', ''CSRT'', ''TLD'', ''MEDIANFLOW'', ''GOTURN'', ''MOSSE'']"

definition tracker_type :: string where
  "tracker_type = tracker_types ! 6"

text \<open>The \<open>if\<close>/\<open>elif\<close>/\<open>else\<close> chain that picks the factory to call.\<close>

definition select_tracker :: "string \<Rightarrow> tracker_kind" where
  "select_tracker t =
     (if t = ''BOOSTING'' then BOOSTING
      else if t = ''MIL'' then MIL
      else if t = ''KCF'' then KCF
      else if t = ''CSRT'' then CSRT
      else if t = ''TLD'' then TLD
      else if t = ''MEDIANFLOW'' then MEDIANFLOW
      else if t = ''GOTURN'' then GOTURN
      else MOSSE)"

subsection \<open>The video source, the keyboard and the tracker\<close>

text \<open>
  \<open>cv2.VideoCapture\<close>: \<open>read()\<close> on a capture that is not open, or that has no frame
  left, returns \<open>(False, None)\<close>; otherwise it returns \<open>(True, image)\<close> and moves on.
  The flag is the presence of the image, so the model returns the optional frame only.
\<close>

record 'i video =
  opened :: bool
  remaining :: "'i list"

definition fresh :: "'i \<Rightarrow> 'i frame" where
  "fresh img = \<lparr>pixels = img, drawn = []\<rparr>"

definition video_read :: "'i video \<Rightarrow> 'i frame option \<times> 'i video" where
  "video_read v =
     (if opened v then
        (case remaining v of
           [] \<Rightarrow> (None, v)
         | img # rest \<Rightarrow> (Some (fresh img), v\<lparr>remaining := rest\<rparr>))
      else (None, v))"

definition video_release :: "'i video \<Rightarrow> 'i video" where
  "video_release v = v\<lparr>opened := False\<rparr>"

text \<open>
  \<open>cv2.waitKey(1)\<close> returns the code of the key pressed during the poll, or \<open>-1\<close> when
  none was. The polls are a list of results; once it is used up no key is pressed.
\<close>

definition waitKey :: "int list \<Rightarrow> int \<times> int list" where
  "waitKey ks = (case ks of [] \<Rightarrow> (- 1, []) | k # rest \<Rightarrow> (k, rest))"

text \<open>\<open>cv2.waitKey(1) & 0xFF == ord("q")\<close>, where \<open>ord("q")\<close> is 113.\<close>

definition is_quit :: "int \<Rightarrow> bool" where
  "is_quit k = (k AND 255 = 113)"

text \<open>
  A tracker is an opaque object with a state of its own: \<open>init(frame, bbox)\<close> returns a
  flag, \<open>update(frame)\<close> returns a flag and a box, and both may change the state.
\<close>

record ('i, 'r, 's) tracker =
  tr_state :: 's
  tr_init :: "'i frame \<Rightarrow> 'r bbox \<Rightarrow> 's \<Rightarrow> bool \<times> 's"
  tr_update :: "'i frame \<Rightarrow> 's \<Rightarrow> (bool \<times> 'r bbox) \<times> 's"

definition Tracker_init ::
  "('i, 'r, 's) tracker \<Rightarrow> 'i frame \<Rightarrow> 'r bbox \<Rightarrow> bool \<times> ('i, 'r, 's) tracker" where
  "Tracker_init t frame b =
     (let (r, st) = tr_init t frame b (tr_state t) in (r, t\<lparr>tr_state := st\<rparr>))"

definition Tracker_update ::
  "('i, 'r, 's) tracker \<Rightarrow> 'i frame \<Rightarrow> (bool \<times> 'r bbox) \<times> ('i, 'r, 's) tracker" where
  "Tracker_update t frame =
     (let (r, st) = tr_update t frame (tr_state t) in (r, t\<lparr>tr_state := st\<rparr>))"

record ('i, 'r, 's) env =
  float_arith :: "'r float_ops"
  cv2_create :: "tracker_kind \<Rightarrow> ('i, 'r, 's) tracker"
  file_opens :: bool
  file_frames :: "'i list"
  frame_width :: int
  frame_height :: int
  key_presses :: "int list"

subsection \<open>The trace of library calls and the variables of the script\<close>

datatype ('i, 'r) event =
    TrackerCreate tracker_kind
  | CaptureOpen string
  | Read bool
  | Print string
  | Exit
  | NamedWindow string
  | ResizeWindow string int int
  | PltFigure int int
  | PltImshow "'i frame"
  | PltAxis string
  | TrackerInit "'i frame" "'r bbox" bool
  | TrackerUpdate "'i frame" bool "'r bbox"
  | ImShow string "'i frame"
  | WaitKey int
  | Sleep
  | Release
  | DestroyAllWindows

datatype py_error = AttributeError

datatype outcome = Finished | Exited | Raised py_error

subsection \<open>Showing the seed box\<close>

text \<open>
  \<^verbatim>\<open>
  def displayRectangle(frame, bbox):
      plt.figure(figsize=(20, 10))
      frameCopy = frame.copy()
      drawRectangle(frameCopy, bbox)
      frameCopy = cv2.cvtColor(frameCopy, cv2.COLOR_RGB2BGR)
      plt.imshow(frameCopy)
      plt.axis("off")
  \<close>
  The drawing goes to a copy, so the frame passed in is unchanged. When the first read
  failed the frame is \<open>None\<close> and \<open>frame.copy()\<close> raises, after \<open>plt.figure\<close>.
\<close>

fun displayRectangle ::
  "'r float_ops \<Rightarrow> 'i frame option \<Rightarrow> 'r bbox \<Rightarrow> ('i, 'r) event list \<times> py_error option" where
  "displayRectangle ar None b = ([PltFigure 20 10], Some AttributeError)"
| "displayRectangle ar (Some frame) b =
     (let frameCopy = frame;
          frameCopy = drawRectangle ar frameCopy b;
          frameCopy = frameCopy\<lparr>drawn := drawn frameCopy @ [CvtColor]\<rparr>
      in ([PltFigure 20 10, PltImshow frameCopy, PltAxis ''off''], None))"

definition seed_bbox :: "'r bbox" where
  "seed_bbox = (PyInt 1300, PyInt 405, PyInt 160, PyInt 120)"

text \<open>
  The variables of the script, the float arithmetic it runs on, the video and keyboard
  it reads from, and the trace so far. A variable holds its first assigned value from the start, also on the paths that
  end before the assignment is reached.
\<close>

record ('i, 'r, 's) state =
  arith :: "'r float_ops"
  ok :: bool
  frame :: "'i frame option"
  bbox :: "'r bbox"
  tracker :: "('i, 'r, 's) tracker"
  video :: "'i video"
  keys :: "int list"
  trace :: "('i, 'r) event list"

definition emit :: "('i, 'r) event list \<Rightarrow> ('i, 'r, 's) state \<Rightarrow> ('i, 'r, 's) state" where
  "emit es s = s\<lparr>trace := trace s @ es\<rparr>"

subsection \<open>Before the loop\<close>

text \<open>
  Lines 48 to 89 of the script: create the tracker, open the video and read one frame,
  leave if the video is not open, set up the window, define the box, show it, and
  initialise the tracker. The result says whether the script goes on to the loop
  (\<open>None\<close>) or has ended, and how. When the video is open but the first read gave no
  frame, \<open>displayRectangle\<close> raises; the case of no frame and no error cannot occur.
\<close>

definition startup :: "('i, 'r, 's) env \<Rightarrow> outcome option \<times> ('i, 'r, 's) state" where
  "startup e =
     (let kind = select_tracker tracker_type;
          tr = cv2_create e kind;
          v = \<lparr>opened = file_opens e, remaining = file_frames e\<rparr>;
          (fr, v) = video_read v;
          s = \<lparr>arith = float_arith e, ok = (fr \<noteq> None), frame = fr, bbox = seed_bbox,
               tracker = tr, video = v, keys = key_presses e,
               trace = [TrackerCreate kind, CaptureOpen ''race_car.mp4'', Read (fr \<noteq> None)]\<rparr>
      in if \<not> opened v then
           (Some Exited, emit [Print ''Error opening video file'', Exit] s)
         else
           (let width = frame_width e;
                height = frame_height e;
                s = emit [NamedWindow ''Object Tracker'',
                          ResizeWindow ''Object Tracker'' (width div 2) (height div 2)] s;
                (es, err) = displayRectangle (float_arith e) fr seed_bbox;
                s = emit es s
            in case (err, fr) of
                 (Some x, _) \<Rightarrow> (Some (Raised x), s)
               | (None, None) \<Rightarrow> (Some (Raised AttributeError), s)
               | (None, Some f) \<Rightarrow>
                   (let (r, tr) = Tracker_init tr f seed_bbox
                    in (None, emit [TrackerInit f seed_bbox r] (s\<lparr>ok := r, tracker := tr\<rparr>)))))"

subsection \<open>The loop\<close>

text \<open>
  One pass through the loop body after a successful read (lines 97 to 113): update the
  tracker, draw the box or the failure text, draw the label, show the frame and poll the
  keyboard. The flag returned says whether the \<open>q\<close> test breaks out of the loop.
\<close>

definition loop_body :: "'i frame \<Rightarrow> ('i, 'r, 's) state \<Rightarrow> ('i, 'r, 's) state \<times> bool" where
  "loop_body f s =
     (let ((r, b), tr) = Tracker_update (tracker s) f;
          s = emit [TrackerUpdate f r b] (s\<lparr>ok := r, bbox := b, tracker := tr\<rparr>);
          f = (if r then drawRectangle (arith s) f b
               else drawText f ''Tracking failure detected'' (80, 140) (0, 0, 255));
          f = drawText f (tracker_type @ '' Tracker'') (80, 60) default_color;
          s = emit [ImShow ''Frame'' f] (s\<lparr>frame := Some f\<rparr>);
          (k, ks) = waitKey (keys s);
          s = emit [WaitKey k] (s\<lparr>keys := ks\<rparr>)
      in (s, is_quit k))"

text \<open>
  \<^verbatim>\<open>
  while True:
      ok, frame = video.read()
      if not ok:
          break
      ...
      if cv2.waitKey(1) & 0xFF == ord("q"):
          break
      time.sleep(0.05)
  \<close>
\<close>

function loop :: "('i, 'r, 's) state \<Rightarrow> ('i, 'r, 's) state" where
  "loop s =
     (case video_read (video s) of
        (None, v) \<Rightarrow> emit [Read False] (s\<lparr>ok := False, frame := None, video := v\<rparr>)
      | (Some f, v) \<Rightarrow>
          (case loop_body f (emit [Read True] (s\<lparr>ok := True, frame := Some f, video := v\<rparr>)) of
             (s', True) \<Rightarrow> s'
           | (s', False) \<Rightarrow> loop (emit [Sleep] s')))"
  by pat_completeness auto
termination
  apply (relation "measure (\<lambda>s. length (remaining (video s)))")
   apply simp
  apply (auto simp: emit_def loop_body_def video_read_def Let_def split: prod.splits if_splits list.splits)
  done

declare loop.simps [simp del]

subsection \<open>After the loop, and the whole script\<close>

text \<open>
  \<^verbatim>\<open>
  video.release()
  cv2.destroyAllWindows()

  # Release the video capture object and close the window
  video.release()
  cv2.destroyAllWindows()
  \<close>
\<close>

definition release :: "('i, 'r, 's) state \<Rightarrow> ('i, 'r, 's) state" where
  "release s = emit [Release] (s\<lparr>video := video_release (video s)\<rparr>)"

definition destroyAllWindows :: "('i, 'r, 's) state \<Rightarrow> ('i, 'r, 's) state" where
  "destroyAllWindows s = emit [DestroyAllWindows] s"

definition cleanup :: "('i, 'r, 's) state \<Rightarrow> ('i, 'r, 's) state" where
  "cleanup s = destroyAllWindows (release (destroyAllWindows (release s)))"

definition main :: "('i, 'r, 's) env \<Rightarrow> outcome \<times> ('i, 'r, 's) state" where
  "main e =
     (case startup e of
        (Some out, s) \<Rightarrow> (out, s)
      | (None, s) \<Rightarrow> (Finished, cleanup (loop s)))"

subsection \<open>Reading a trace\<close>

fun is_read :: "('i, 'r) event \<Rightarrow> bool" where
  "is_read (Read r) = True"
| "is_read _ = False"

fun is_init :: "('i, 'r) event \<Rightarrow> bool" where
  "is_init (TrackerInit f b r) = True"
| "is_init _ = False"

fun is_update :: "('i, 'r) event \<Rightarrow> bool" where
  "is_update (TrackerUpdate f r b) = True"
| "is_update _ = False"

definition num_reads :: "('i, 'r) event list \<Rightarrow> nat" where
  "num_reads es = length (filter is_read es)"

definition num_inits :: "('i, 'r) event list \<Rightarrow> nat" where
  "num_inits es = length (filter is_init es)"

definition num_updates :: "('i, 'r) event list \<Rightarrow> nat" where
  "num_updates es = length (filter is_update es)"

text \<open>The frames passed to \<open>cv2.imshow\<close>, in order.\<close>

fun shown :: "('i, 'r) event list \<Rightarrow> 'i frame list" where
  "shown [] = []"
| "shown (ImShow n f # es) = f # shown es"
| "shown (e # es) = shown es"

fun is_rectangle :: "draw_op \<Rightarrow> bool" where
  "is_rectangle (Rectangle p1 p2 c t l) = True"
| "is_rectangle _ = False"

definition failure_text :: draw_op where
  "failure_text =
     PutText ''Tracking failure detected'' (80, 140) FONT_HERSHEY_SIMPLEX 1 (0, 0, 255) 3"

text \<open>
  The label drawn on every frame, and what a frame shows after a failed update: the
  failure text and no rectangle.
\<close>

definition label_text :: draw_op where
  "label_text =
     PutText (tracker_type @ '' Tracker'') (80, 60) FONT_HERSHEY_SIMPLEX 1 (50, 170, 50) 3"

definition shows_failure :: "'i frame \<Rightarrow> bool" where
  "shows_failure g = (failure_text \<in> set (drawn g) \<and> \<not> list_ex is_rectangle (drawn g))"

text \<open>The quit key is never pressed: no poll returns a code whose low byte is \<open>q\<close>.\<close>

definition never_quit :: "int list \<Rightarrow> bool" where
  "never_quit ks = list_all (\<lambda>k. \<not> is_quit k) ks"

text \<open>The calls the loop makes, and the two that end it: a failed read and a poll that returns \<open>q\<close>.\<close>

fun loop_event :: "('i, 'r) event \<Rightarrow> bool" where
  "loop_event (Read r) = True"
| "loop_event (TrackerUpdate f r b) = True"
| "loop_event (ImShow n f) = True"
| "loop_event (WaitKey k) = True"
| "loop_event Sleep = True"
| "loop_event _ = False"

fun stops :: "('i, 'r) event \<Rightarrow> bool" where
  "stops (Read r) = (\<not> r)"
| "stops (WaitKey k) = is_quit k"
| "stops _ = False"

subsection \<open>What the loop is expected to do\<close>

text \<open>
  The index of the first poll that returns \<open>q\<close>, and the number of passes through the
  loop body that follows from it when \<open>n\<close> frames are left in the source: all \<open>n\<close>
  when \<open>q\<close> is not pressed in time, otherwise up to and including the pass whose poll
  returns \<open>q\<close>.
\<close>

fun first_quit :: "int list \<Rightarrow> nat option" where
  "first_quit [] = None"
| "first_quit (k # ks) = (if is_quit k then Some 0 else map_option Suc (first_quit ks))"

definition passes :: "nat \<Rightarrow> int list \<Rightarrow> nat" where
  "passes n ks = (case first_quit ks of None \<Rightarrow> n | Some i \<Rightarrow> min n (Suc i))"

text \<open>The frame as it is shown after lines 100 to 107, given what the update returned.\<close>

definition annotate :: "'r float_ops \<Rightarrow> 'i frame \<Rightarrow> bool \<Rightarrow> 'r bbox \<Rightarrow> 'i frame" where
  "annotate ar f r b =
     drawText (if r then drawRectangle ar f b
               else drawText f ''Tracking failure detected'' (80, 140) (0, 0, 255))
       (tracker_type @ '' Tracker'') (80, 60) default_color"

text \<open>The state after one full pass through the loop on the image \<open>img\<close>.\<close>

definition pass :: "('i, 'r, 's) state \<Rightarrow> 'i \<Rightarrow> 'i list \<Rightarrow> ('i, 'r, 's) state" where
  "pass s img rest =
     fst (loop_body (fresh img)
            (emit [Read True] (s\<lparr>ok := True, frame := Some (fresh img),
                                  video := (video s)\<lparr>remaining := rest\<rparr>\<rparr>)))"

subsection \<open>Stub trackers and sources\<close>

text \<open>
  For concrete runs floats are the rationals they denote: addition is exact and \<open>int(x)\<close>
  drops the fraction (rounds towards zero). Python agrees with this wherever the exact sum
  is itself a float; the runs below use only ints, halves and quarters of pixel size.
\<close>

definition exact_floats :: "rat float_ops" where
  "exact_floats =
     \<lparr>float_add = (\<lambda>x y. x + y), float_of_int = of_int,
      float_to_int = (\<lambda>x. if 0 \<le> x then \<lfloor>x\<rfloor> else \<lceil>x\<rceil>)\<rparr>"

text \<open>
  A tracker whose \<open>update\<close> always returns the same flag and box, and an environment
  built around it, with images numbered by naturals.
\<close>

definition stub_tracker :: "bool \<Rightarrow> rat bbox \<Rightarrow> (nat, rat, unit) tracker" where
  "stub_tracker r b =
     \<lparr>tr_state = (), tr_init = (\<lambda>f b st. (True, st)), tr_update = (\<lambda>f st. ((r, b), st))\<rparr>"

definition stub_env ::
  "(nat, rat, unit) tracker \<Rightarrow> bool \<Rightarrow> nat list \<Rightarrow> int list \<Rightarrow> (nat, rat, unit) env" where
  "stub_env t opens frames ks =
     \<lparr>float_arith = exact_floats, cv2_create = (\<lambda>k. t), file_opens = opens,
      file_frames = frames, frame_width = 1920, frame_height = 1080, key_presses = ks\<rparr>"

section \<open>Properties\<close>

subsection \<open>Unfolding the loop\<close>

lemma tracker_type_eq: "tracker_type = ''GOTURN''"
  by (simp add: tracker_type_def tracker_types_def)

lemma is_quit_no_key: "\<not> is_quit (- 1)"
  by (simp add: is_quit_def)

lemma loop_body_unfold:
  assumes "Tracker_update (tracker s) f = ((r, b), tr)"
  shows "loop_body f s =
    (s\<lparr>ok := r, bbox := b, tracker := tr, frame := Some (annotate (arith s) f r b),
       keys := snd (waitKey (keys s)),
       trace := trace s @
         [TrackerUpdate f r b, ImShow ''Frame'' (annotate (arith s) f r b),
          WaitKey (fst (waitKey (keys s)))]\<rparr>,
     is_quit (fst (waitKey (keys s))))"
  using assms by (simp add: loop_body_def annotate_def emit_def Let_def split: prod.splits)

lemma loop_Nil:
  assumes "remaining (video s) = [] \<or> \<not> opened (video s)"
  shows "loop s = emit [Read False] (s\<lparr>ok := False, frame := None\<rparr>)"
  using assms by (subst loop.simps) (auto simp: video_read_def emit_def)

lemma loop_Cons:
  assumes "opened (video s)" and "remaining (video s) = img # rest"
  shows "loop s =
    (if is_quit (fst (waitKey (keys s))) then pass s img rest
     else loop (emit [Sleep] (pass s img rest)))"
  using assms
  by (subst loop.simps)
     (simp add: video_read_def pass_def fresh_def loop_body_def emit_def Let_def split: prod.splits)

lemma pass_fields:
  assumes "Tracker_update (tracker s) (fresh img) = ((r, b), tr)"
  shows "trace (pass s img rest) = trace s @
           [Read True, TrackerUpdate (fresh img) r b, ImShow ''Frame'' (annotate (arith s) (fresh img) r b),
            WaitKey (fst (waitKey (keys s)))]"
    and "keys (pass s img rest) = snd (waitKey (keys s))"
    and "video (pass s img rest) = (video s)\<lparr>remaining := rest\<rparr>"
    and "ok (pass s img rest) = r"
    and "bbox (pass s img rest) = b"
    and "tracker (pass s img rest) = tr"
    and "frame (pass s img rest) = Some (annotate (arith s) (fresh img) r b)"
  using assms by (simp_all add: pass_def loop_body_unfold [where r = r and b = b and tr = tr] emit_def)

lemma pass_trace_ex:
  "\<exists>r b. trace (pass s img rest) = trace s @
           [Read True, TrackerUpdate (fresh img) r b, ImShow ''Frame'' (annotate (arith s) (fresh img) r b),
            WaitKey (fst (waitKey (keys s)))]"
  by (cases "Tracker_update (tracker s) (fresh img)") (auto simp: pass_fields(1))

lemma pass_keys: "keys (pass s img rest) = snd (waitKey (keys s))"
  by (cases "Tracker_update (tracker s) (fresh img)") (auto simp: pass_fields(2))

lemma pass_video: "video (pass s img rest) = (video s)\<lparr>remaining := rest\<rparr>"
  by (cases "Tracker_update (tracker s) (fresh img)") (auto simp: pass_fields(3))

lemma pass_tr_update: "tr_update (tracker (pass s img rest)) = tr_update (tracker s)"
  by (cases "Tracker_update (tracker s) (fresh img)")
     (auto simp: pass_fields(6) Tracker_update_def split: prod.splits)

lemma loop_appends:
  "\<exists>es. trace (loop s) = trace s @ es \<and> list_all loop_event es"
proof (induction "remaining (video s)" arbitrary: s)
  case Nil
  then show ?case by (simp add: loop_Nil emit_def)
next
  case (Cons img rest)
  show ?case
  proof (cases "opened (video s)")
    case False
    then show ?thesis by (simp add: loop_Nil emit_def)
  next
    case True
    obtain r b where tr: "trace (pass s img rest) = trace s @
           [Read True, TrackerUpdate (fresh img) r b, ImShow ''Frame'' (annotate (arith s) (fresh img) r b),
            WaitKey (fst (waitKey (keys s)))]"
      using pass_trace_ex [of s img rest] by blast
    show ?thesis
    proof (cases "is_quit (fst (waitKey (keys s)))")
      case q: True
      then show ?thesis using True Cons(2) tr by (simp add: loop_Cons [of s img rest])
    next
      case q: False
      have "rest = remaining (video (emit [Sleep] (pass s img rest)))"
        by (simp add: emit_def pass_video)
      from Cons(1) [OF this] obtain es where
        "trace (loop (emit [Sleep] (pass s img rest))) = trace (emit [Sleep] (pass s img rest)) @ es"
        and "list_all loop_event es" by blast
      then show ?thesis using True Cons(2) tr q
        by (simp add: loop_Cons [of s img rest] emit_def)
    qed
  qed
qed

lemma passes_0: "passes 0 ks = 0"
  by (simp add: passes_def split: option.splits)

lemma passes_Suc:
  "passes (Suc n) ks =
     Suc (if is_quit (fst (waitKey ks)) then 0 else passes n (snd (waitKey ks)))"
  by (cases ks) (auto simp: passes_def waitKey_def is_quit_no_key split: option.splits)

lemma num_updates_append: "num_updates (xs @ ys) = num_updates xs + num_updates ys"
  by (simp add: num_updates_def)

lemma loop_num_updates:
  "opened (video s) \<Longrightarrow>
   num_updates (trace (loop s)) =
     num_updates (trace s) + passes (length (remaining (video s))) (keys s)"
proof (induction "remaining (video s)" arbitrary: s)
  case Nil
  then show ?case by (simp add: loop_Nil emit_def num_updates_def passes_0 [unfolded passes_def] passes_def split: option.splits)
next
  case (Cons img rest)
  obtain r b where tr: "trace (pass s img rest) = trace s @
           [Read True, TrackerUpdate (fresh img) r b, ImShow ''Frame'' (annotate (arith s) (fresh img) r b),
            WaitKey (fst (waitKey (keys s)))]"
    using pass_trace_ex [of s img rest] by blast
  have len: "length (remaining (video s)) = Suc (length rest)"
    using Cons(2) [symmetric] by simp
  show ?case
  proof (cases "is_quit (fst (waitKey (keys s)))")
    case True
    then show ?thesis using Cons(2,3) tr
      by (simp add: loop_Cons [of s img rest] len passes_Suc num_updates_def)
  next
    case False
    have a: "rest = remaining (video (emit [Sleep] (pass s img rest)))"
      by (simp add: emit_def pass_video)
    have b: "opened (video (emit [Sleep] (pass s img rest)))"
      using Cons(3) by (simp add: emit_def pass_video)
    show ?thesis using Cons(1) [OF a b] Cons(2,3) tr False
      by (simp add: loop_Cons [of s img rest] len passes_Suc emit_def pass_video pass_keys num_updates_def)
  qed
qed

subsection \<open>Before and after the loop\<close>

lemma startup_opened:
  assumes "file_opens e" and "file_frames e = f0 # fs"
    and "Tracker_init (cv2_create e GOTURN) (fresh f0) seed_bbox = (r, tr)"
  shows "startup e =
    (None,
     \<lparr>arith = float_arith e, ok = r, frame = Some (fresh f0), bbox = seed_bbox, tracker = tr,
      video = \<lparr>opened = True, remaining = fs\<rparr>, keys = key_presses e,
      trace = [TrackerCreate GOTURN, CaptureOpen ''race_car.mp4'', Read True,
               NamedWindow ''Object Tracker'',
               ResizeWindow ''Object Tracker'' (frame_width e div 2) (frame_height e div 2),
               PltFigure 20 10,
               PltImshow (fresh f0\<lparr>drawn := [Rectangle (1300, 405) (1460, 525) (255, 0, 0) 2 1,
                                             CvtColor]\<rparr>),
               PltAxis ''off'',
               TrackerInit (fresh f0) seed_bbox r]\<rparr>)"
  using assms
  by (simp add: startup_def tracker_type_eq select_tracker_def video_read_def emit_def
      seed_bbox_def fresh_def Let_def)

lemma startup_closed:
  assumes "\<not> file_opens e"
  shows "startup e =
    (Some Exited,
     \<lparr>arith = float_arith e, ok = False, frame = None, bbox = seed_bbox, tracker = cv2_create e GOTURN,
      video = \<lparr>opened = False, remaining = file_frames e\<rparr>, keys = key_presses e,
      trace = [TrackerCreate GOTURN, CaptureOpen ''race_car.mp4'', Read False,
               Print ''Error opening video file'', Exit]\<rparr>)"
  using assms
  by (simp add: startup_def tracker_type_eq select_tracker_def video_read_def emit_def Let_def)

lemma cleanup_trace:
  "trace (cleanup s) = trace s @ [Release, DestroyAllWindows, Release, DestroyAllWindows]"
  by (simp add: cleanup_def release_def destroyAllWindows_def emit_def)

lemma cleanup_vars: "ok (cleanup s) = ok s" "bbox (cleanup s) = bbox s"
  by (simp_all add: cleanup_def release_def destroyAllWindows_def emit_def)

lemma main_opened:
  assumes "file_opens e" and "file_frames e = f0 # fs"
  shows "main e = (Finished, cleanup (loop (snd (startup e))))"
    and "opened (video (snd (startup e)))"
    and "remaining (video (snd (startup e))) = fs"
    and "keys (snd (startup e)) = key_presses e"
    and "num_updates (trace (snd (startup e))) = 0"
    and "shown (trace (snd (startup e))) = []"
    and "tr_update (tracker (snd (startup e))) = tr_update (cv2_create e GOTURN)"
  using assms
  by (cases "Tracker_init (cv2_create e GOTURN) (fresh f0) seed_bbox";
      simp add: main_def startup_opened [of e f0 fs] num_updates_def Tracker_init_def
        split: prod.splits; fastforce)+

subsection \<open>Counting passes\<close>

lemma shown_append: "shown (xs @ ys) = shown xs @ shown ys"
  by (induction xs rule: shown.induct) simp_all

lemma loop_num_shown:
  "opened (video s) \<Longrightarrow>
   length (shown (trace (loop s))) =
     length (shown (trace s)) + passes (length (remaining (video s))) (keys s)"
proof (induction "remaining (video s)" arbitrary: s)
  case Nil
  then show ?case by (simp add: loop_Nil emit_def shown_append passes_0)
next
  case (Cons img rest)
  obtain r b where tr: "trace (pass s img rest) = trace s @
           [Read True, TrackerUpdate (fresh img) r b, ImShow ''Frame'' (annotate (arith s) (fresh img) r b),
            WaitKey (fst (waitKey (keys s)))]"
    using pass_trace_ex [of s img rest] by blast
  have len: "length (remaining (video s)) = Suc (length rest)"
    using Cons(2) [symmetric] by simp
  show ?case
  proof (cases "is_quit (fst (waitKey (keys s)))")
    case True
    then show ?thesis using Cons(2,3) tr
      by (simp add: loop_Cons [of s img rest] len passes_Suc shown_append)
  next
    case False
    have a: "rest = remaining (video (emit [Sleep] (pass s img rest)))"
      by (simp add: emit_def pass_video)
    have b: "opened (video (emit [Sleep] (pass s img rest)))"
      using Cons(3) by (simp add: emit_def pass_video)
    show ?thesis using Cons(1) [OF a b] Cons(2,3) tr False
      by (simp add: loop_Cons [of s img rest] len passes_Suc emit_def pass_video pass_keys
          shown_append)
  qed
qed

lemma never_quit_first: "never_quit ks \<Longrightarrow> first_quit ks = None"
  by (induction ks) (simp_all add: never_quit_def)

lemma never_quit_passes: "never_quit ks \<Longrightarrow> passes n ks = n"
  by (simp add: passes_def never_quit_first)

lemmas run_defs =
  main_def startup_def stub_env_def stub_tracker_def loop.simps loop_body_def video_read_def
  Tracker_init_def Tracker_update_def emit_def waitKey_def is_quit_def cleanup_def release_def
  destroyAllWindows_def video_release_def seed_bbox_def tracker_type_eq select_tracker_def
  default_color_def drawText_def fresh_def Let_def

subsection \<open>What is shown\<close>

lemma annotate_True:
  "annotate ar f True (x, y, w, h) =
     f\<lparr>drawn := drawn f @
         [Rectangle (py_int ar x, py_int ar y)
            (py_int ar (py_add ar x w), py_int ar (py_add ar y h)) (255, 0, 0) 2 1,
          label_text]\<rparr>"
  by (simp add: annotate_def drawText_def default_color_def label_text_def)

lemma annotate_False:
  "annotate ar f False b = f\<lparr>drawn := drawn f @ [failure_text, label_text]\<rparr>"
  by (simp add: annotate_def drawText_def default_color_def label_text_def failure_text_def)

lemma loop_first_shown:
  assumes "opened (video s)" and "remaining (video s) = img # rest"
    and "Tracker_update (tracker s) (fresh img) = ((r, b), tr)"
  shows "\<exists>gs. shown (trace (loop s)) = shown (trace s) @ annotate (arith s) (fresh img) r b # gs"
proof (cases "is_quit (fst (waitKey (keys s)))")
  case True
  then show ?thesis using assms
    by (simp add: loop_Cons [of s img rest] pass_fields(1) [of s img r b tr] shown_append)
next
  case False
  obtain es where "trace (loop (emit [Sleep] (pass s img rest))) =
      trace (emit [Sleep] (pass s img rest)) @ es"
    using loop_appends [of "emit [Sleep] (pass s img rest)"] by blast
  then show ?thesis using assms False
    by (simp add: loop_Cons [of s img rest] pass_fields(1) [of s img r b tr] shown_append emit_def)
qed

lemma Tracker_update_fst:
  "fst (Tracker_update t f) = fst (tr_update t f (tr_state t))"
  by (simp add: Tracker_update_def split: prod.splits)

lemma loop_shown_failing:
  assumes "\<forall>g st. \<not> fst (fst (tr_update (tracker s) g st))"
  shows "\<exists>gs. shown (trace (loop s)) = shown (trace s) @ gs \<and> list_all shows_failure gs"
  using assms
proof (induction "remaining (video s)" arbitrary: s)
  case Nil
  then show ?case by (simp add: loop_Nil emit_def shown_append)
next
  case (Cons img rest)
  show ?case
  proof (cases "opened (video s)")
    case False
    then show ?thesis by (simp add: loop_Nil emit_def shown_append)
  next
    case True
    obtain r b tr where u: "Tracker_update (tracker s) (fresh img) = ((r, b), tr)"
      by (metis surj_pair)
    have "fst (fst (Tracker_update (tracker s) (fresh img))) = r" using u by simp
    then have "\<not> r" using Cons(3) by (simp add: Tracker_update_fst)
    then have an: "shows_failure (annotate (arith s) (fresh img) r b)"
      by (simp add: annotate_False shows_failure_def fresh_def failure_text_def label_text_def)
    note tr = pass_fields(1) [OF u, of rest]
    show ?thesis
    proof (cases "is_quit (fst (waitKey (keys s)))")
      case q: True
      then show ?thesis using True Cons(2) tr an
        by (simp add: loop_Cons [of s img rest] shown_append)
    next
      case q: False
      have a: "rest = remaining (video (emit [Sleep] (pass s img rest)))"
        by (simp add: emit_def pass_video)
      have b: "\<forall>g st. \<not> fst (fst (tr_update (tracker (emit [Sleep] (pass s img rest))) g st))"
        using Cons(3) by (simp add: emit_def pass_tr_update)
      from Cons(1) [OF a b] obtain gs where
        "shown (trace (loop (emit [Sleep] (pass s img rest)))) =
           shown (trace (emit [Sleep] (pass s img rest))) @ gs"
        and "list_all shows_failure gs" by blast
      then show ?thesis using True Cons(2) tr q an
        by (simp add: loop_Cons [of s img rest] emit_def shown_append)
    qed
  qed
qed

subsection \<open>How the loop ends\<close>

lemma loop_stops:
  "\<exists>es. trace (loop s) = trace s @ es \<and> es \<noteq> [] \<and> stops (last es)
        \<and> list_all (\<lambda>e. \<not> stops e) (butlast es)"
proof (induction "remaining (video s)" arbitrary: s)
  case Nil
  then show ?case by (simp add: loop_Nil emit_def)
next
  case (Cons img rest)
  show ?case
  proof (cases "opened (video s)")
    case False
    then show ?thesis by (simp add: loop_Nil emit_def)
  next
    case True
    obtain r b where tr: "trace (pass s img rest) = trace s @
           [Read True, TrackerUpdate (fresh img) r b, ImShow ''Frame'' (annotate (arith s) (fresh img) r b),
            WaitKey (fst (waitKey (keys s)))]"
      using pass_trace_ex [of s img rest] by blast
    show ?thesis
    proof (cases "is_quit (fst (waitKey (keys s)))")
      case q: True
      then show ?thesis using True Cons(2) tr by (simp add: loop_Cons [of s img rest])
    next
      case q: False
      have "rest = remaining (video (emit [Sleep] (pass s img rest)))"
        by (simp add: emit_def pass_video)
      from Cons(1) [OF this] obtain es where
        es: "trace (loop (emit [Sleep] (pass s img rest))) = trace (emit [Sleep] (pass s img rest)) @ es"
        "es \<noteq> []" "stops (last es)" "list_all (\<lambda>e. \<not> stops e) (butlast es)" by blast
      let ?xs = "[Read True, TrackerUpdate (fresh img) r b,
                  ImShow ''Frame'' (annotate (arith s) (fresh img) r b),
                  WaitKey (fst (waitKey (keys s))), Sleep]"
      have "trace (loop s) = trace s @ (?xs @ es)"
        using True Cons(2) tr q es(1) by (simp add: loop_Cons [of s img rest] emit_def)
      moreover have "?xs @ es \<noteq> []" by simp
      moreover have "stops (last (?xs @ es))" using es(2,3) by simp
      moreover have "list_all (\<lambda>e. \<not> stops e) (butlast (?xs @ es))"
        using es(2,4) q by (simp add: butlast_append)
      ultimately show ?thesis by blast
    qed
  qed
qed

lemma count_list_loop_events:
  "list_all loop_event es \<Longrightarrow> \<not> loop_event x \<Longrightarrow> count_list es x = 0"
  by (induction es) auto

subsection \<open>The claims\<close>

text \<open>
  C10: a tracker-kind string that is none of BOOSTING, MIL, KCF, CSRT, TLD, MEDIANFLOW and
  GOTURN falls through to the final \<open>else\<close> branch, which creates the MOSSE tracker; an
  unrecognised identifier is not rejected.
\<close>

theorem select_tracker_fallthrough:
  "t \<notin> {''BOOSTING'', ''MIL'', ''KCF'', ''CSRT'', ''TLD'', ''MEDIANFLOW'', ''GOTURN''}
   \<Longrightarrow> select_tracker t = MOSSE"
  by (simp add: select_tracker_def)

theorem select_tracker_fallthrough_witness:
  "''SIAMRPN'' \<notin> {''BOOSTING'', ''MIL'', ''KCF'', ''CSRT'', ''TLD'', ''MEDIANFLOW'', ''GOTURN''}
   \<and> select_tracker ''SIAMRPN'' = MOSSE"
  using select_tracker_fallthrough [of "''SIAMRPN''"] by simp

text \<open>
  C1, as stated: when the quit key is never pressed, the loop makes as many passes, and
  as many tracker updates, as the source has frames. It does not: the read before the
  loop takes the first frame for the initialisation of the tracker, so a source of three
  frames gets two updates.
\<close>

theorem frames_count_counterexample:
  "never_quit (key_presses (stub_env (stub_tracker True seed_bbox) True [0, 1, 2] []))
   \<and> fst (main (stub_env (stub_tracker True seed_bbox) True [0, 1, 2] [])) = Finished
   \<and> num_updates (trace (snd (main (stub_env (stub_tracker True seed_bbox) True [0, 1, 2] []))))
       \<noteq> length (file_frames (stub_env (stub_tracker True seed_bbox) True [0, 1, 2] []))"
  by (simp add: run_defs never_quit_def num_updates_def)

text \<open>
  C1, amended: when the video opens and has at least one frame, and the quit key is never
  pressed, the script finishes normally after one pass through the loop body, with one
  tracker update and one displayed frame, for each frame after the first (seed) frame.
\<close>

theorem one_pass_per_frame_after_seed:
  assumes "file_opens e" and "file_frames e = f0 # fs" and "never_quit (key_presses e)"
  shows "fst (main e) = Finished
    \<and> num_updates (trace (snd (main e))) = length fs
    \<and> length (shown (trace (snd (main e)))) = length fs"
  using assms main_opened [of e f0 fs]
    loop_num_updates [of "snd (startup e)"] loop_num_shown [of "snd (startup e)"]
  by (simp add: cleanup_trace num_updates_append shown_append never_quit_passes num_updates_def)

theorem one_pass_per_frame_after_seed_witness:
  "file_opens (stub_env (stub_tracker False (PyInt 0, PyInt 0, PyInt 0, PyInt 0)) True [7, 8, 9] [-1, 81])
   \<and> file_frames (stub_env (stub_tracker False (PyInt 0, PyInt 0, PyInt 0, PyInt 0)) True [7, 8, 9] [-1, 81]) = 7 # [8, 9]
   \<and> never_quit (key_presses (stub_env (stub_tracker False (PyInt 0, PyInt 0, PyInt 0, PyInt 0)) True [7, 8, 9] [-1, 81]))
   \<and> fst (main (stub_env (stub_tracker False (PyInt 0, PyInt 0, PyInt 0, PyInt 0)) True [7, 8, 9] [-1, 81])) = Finished
   \<and> num_updates (trace (snd (main (stub_env (stub_tracker False (PyInt 0, PyInt 0, PyInt 0, PyInt 0)) True [7, 8, 9] [-1, 81])))) = 2
   \<and> length (shown (trace (snd (main (stub_env (stub_tracker False (PyInt 0, PyInt 0, PyInt 0, PyInt 0)) True [7, 8, 9] [-1, 81]))))) = 2"
  using one_pass_per_frame_after_seed
    [of "stub_env (stub_tracker False (PyInt 0, PyInt 0, PyInt 0, PyInt 0)) True [7, 8, 9] [-1, 81]" 7 "[8, 9]"]
  by (simp add: stub_env_def never_quit_def is_quit_def)

text \<open>
  C9: when the source has no frame after the seed frame, the first read in the loop fails
  and the loop ends at once: no tracker update is made and no frame is shown; after the
  start-up the script only makes the failed read and the release calls.
\<close>

theorem no_frames_after_seed:
  assumes "file_opens e" and "file_frames e = [f0]"
  shows "fst (main e) = Finished
    \<and> num_updates (trace (snd (main e))) = 0
    \<and> shown (trace (snd (main e))) = []
    \<and> drop (length (trace (snd (startup e)))) (trace (snd (main e))) =
        [Read False, Release, DestroyAllWindows, Release, DestroyAllWindows]"
  using assms main_opened [of e f0 "[]"]
  by (simp add: cleanup_trace loop_Nil emit_def num_updates_append shown_append)
     (simp add: num_updates_def)

theorem no_frames_after_seed_witness:
  "file_opens (stub_env (stub_tracker True seed_bbox) True [5] [])
   \<and> file_frames (stub_env (stub_tracker True seed_bbox) True [5] []) = [5]
   \<and> fst (main (stub_env (stub_tracker True seed_bbox) True [5] [])) = Finished
   \<and> num_updates (trace (snd (main (stub_env (stub_tracker True seed_bbox) True [5] [])))) = 0
   \<and> shown (trace (snd (main (stub_env (stub_tracker True seed_bbox) True [5] [])))) = []"
  using no_frames_after_seed [of "stub_env (stub_tracker True seed_bbox) True [5] []" 5]
  by (simp add: stub_env_def)


text \<open>
  C7, as stated: two frame reads are made before the loop, and the tracker is initialised
  with the frame of the second. It is not so: on a source with frames 10, 11 and 12 the
  start-up makes one read, and the tracker is not initialised with frame 11.
\<close>

theorem two_reads_counterexample:
  "fst (startup (stub_env (stub_tracker True seed_bbox) True [10, 11, 12] [])) = None
   \<and> num_reads (trace (snd (startup (stub_env (stub_tracker True seed_bbox) True [10, 11, 12] [])))) \<noteq> 2
   \<and> TrackerInit (fresh 11) seed_bbox True
       \<notin> set (trace (snd (startup (stub_env (stub_tracker True seed_bbox) True [10, 11, 12] []))))"
  by (simp add: run_defs num_reads_def)

text \<open>
  C7, amended: when the video opens and has a frame, exactly one frame read is made before
  the loop; the tracker is initialised once, as the last step before the loop, with the
  frame of that read (the first frame of the source) and the seed box; the frames after
  the first are all left for the loop.
\<close>

theorem one_read_before_loop:
  assumes "file_opens e" and "file_frames e = f0 # fs"
  shows "fst (startup e) = None
    \<and> num_reads (trace (snd (startup e))) = 1
    \<and> num_inits (trace (snd (startup e))) = 1
    \<and> last (trace (snd (startup e))) =
        TrackerInit (fresh f0) seed_bbox
          (fst (Tracker_init (cv2_create e (select_tracker tracker_type)) (fresh f0) seed_bbox))
    \<and> remaining (video (snd (startup e))) = fs"
  using assms
  by (cases "Tracker_init (cv2_create e GOTURN) (fresh f0) seed_bbox")
     (simp add: startup_opened [of e f0 fs] num_reads_def num_inits_def tracker_type_eq
       select_tracker_def)

theorem one_read_before_loop_witness:
  "file_opens (stub_env (stub_tracker True seed_bbox) True [10, 11, 12] [])
   \<and> file_frames (stub_env (stub_tracker True seed_bbox) True [10, 11, 12] []) = 10 # [11, 12]
   \<and> num_reads (trace (snd (startup (stub_env (stub_tracker True seed_bbox) True [10, 11, 12] [])))) = 1
   \<and> last (trace (snd (startup (stub_env (stub_tracker True seed_bbox) True [10, 11, 12] [])))) =
        TrackerInit (fresh 10) seed_bbox True
   \<and> remaining (video (snd (startup (stub_env (stub_tracker True seed_bbox) True [10, 11, 12] [])))) = [11, 12]"
  using one_read_before_loop
    [of "stub_env (stub_tracker True seed_bbox) True [10, 11, 12] []" 10 "[11, 12]"]
  by (simp add: stub_env_def stub_tracker_def Tracker_init_def)

text \<open>
  C2, as stated: when the update fails the bounding box variable keeps its last value.
  It does not: with a tracker whose update fails and returns the box \<open>(0, 0, 0, 0)\<close>, and
  \<open>q\<close> pressed at the first poll, the script ends after one update with the failure flag
  raised and the variable no longer the seed box it held before.
\<close>

theorem stale_bbox_counterexample:
  "ok (snd (main (stub_env (stub_tracker False (PyInt 0, PyInt 0, PyInt 0, PyInt 0)) True [0, 1] [113]))) = False
   \<and> bbox (snd (startup (stub_env (stub_tracker False (PyInt 0, PyInt 0, PyInt 0, PyInt 0)) True [0, 1] [113]))) = seed_bbox
   \<and> num_updates (trace (snd (main (stub_env (stub_tracker False (PyInt 0, PyInt 0, PyInt 0, PyInt 0)) True [0, 1] [113])))) = 1
   \<and> bbox (snd (main (stub_env (stub_tracker False (PyInt 0, PyInt 0, PyInt 0, PyInt 0)) True [0, 1] [113]))) \<noteq> seed_bbox"
  by (simp add: run_defs num_updates_def)

text \<open>
  C2, amended: on every pass through the loop body the flag and the bounding box variable
  are both assigned what the update returned, on failure as on success.
\<close>

theorem update_assigns_bbox:
  assumes "Tracker_update (tracker s) f = ((r, b), tr)"
  shows "ok (fst (loop_body f s)) = r \<and> bbox (fst (loop_body f s)) = b"
  using assms by (simp add: loop_body_unfold [of s f r b tr])

theorem update_assigns_bbox_witness:
  "Tracker_update (stub_tracker False (PyInt 3, PyInt 4, PyInt 5, PyInt 6)) (fresh 1) =
     ((False, (PyInt 3, PyInt 4, PyInt 5, PyInt 6)), stub_tracker False (PyInt 3, PyInt 4, PyInt 5, PyInt 6))
   \<and> ok (fst (loop_body (fresh 1)
        \<lparr>arith = exact_floats, ok = True, frame = Some (fresh 1), bbox = seed_bbox,
         tracker = stub_tracker False (PyInt 3, PyInt 4, PyInt 5, PyInt 6),
         video = \<lparr>opened = True, remaining = []\<rparr>, keys = [], trace = []\<rparr>)) = False
   \<and> bbox (fst (loop_body (fresh 1)
        \<lparr>arith = exact_floats, ok = True, frame = Some (fresh 1), bbox = seed_bbox,
         tracker = stub_tracker False (PyInt 3, PyInt 4, PyInt 5, PyInt 6),
         video = \<lparr>opened = True, remaining = []\<rparr>, keys = [], trace = []\<rparr>)) = (PyInt 3, PyInt 4, PyInt 5, PyInt 6)"
proof -
  have h: "Tracker_update (stub_tracker False (PyInt 3, PyInt 4, PyInt 5, PyInt 6)) (fresh 1) =
     ((False, (PyInt 3, PyInt 4, PyInt 5, PyInt 6)), stub_tracker False (PyInt 3, PyInt 4, PyInt 5, PyInt 6))"
    by (simp add: Tracker_update_def stub_tracker_def)
  show ?thesis
    using h update_assigns_bbox
      [of "\<lparr>arith = exact_floats, ok = True, frame = Some (fresh 1), bbox = seed_bbox,
         tracker = stub_tracker False (PyInt 3, PyInt 4, PyInt 5, PyInt 6),
         video = \<lparr>opened = True, remaining = []\<rparr>, keys = [], trace = []\<rparr>"
        "fresh 1" False "(PyInt 3, PyInt 4, PyInt 5, PyInt 6)" "stub_tracker False (PyInt 3, PyInt 4, PyInt 5, PyInt 6)"]
    by simp
qed

text \<open>
  C3, as stated: after a successful update with the box \<open>(x, y, w, h)\<close> the rectangle drawn
  runs from \<open>(x, y)\<close> to \<open>(x + w, y + h)\<close>. It does not for a box of floats, on which
  \<open>int(...)\<close> drops the fraction: with the box \<open>(10.5, 20.5, 30.25, 40.25)\<close> the rectangle
  drawn runs from \<open>(10, 20)\<close> to \<open>(40, 60)\<close>, while \<open>(x, y)\<close> is \<open>(10.5, 20.5)\<close> and
  \<open>(x + w, y + h)\<close> is \<open>(40.75, 60.75)\<close>.
\<close>

theorem float_bbox_counterexample:
  "fst (fst (Tracker_update
        (stub_tracker True (PyFloat (21 / 2), PyFloat (41 / 2), PyFloat (121 / 4), PyFloat (161 / 4)))
        (fresh 1))) = True
   \<and> shown (trace (fst (loop_body (fresh 1)
        \<lparr>arith = exact_floats, ok = True, frame = Some (fresh 0), bbox = seed_bbox,
         tracker = stub_tracker True
           (PyFloat (21 / 2), PyFloat (41 / 2), PyFloat (121 / 4), PyFloat (161 / 4)),
         video = \<lparr>opened = True, remaining = []\<rparr>, keys = [], trace = []\<rparr>))) =
       [\<lparr>pixels = 1, drawn = [Rectangle (10, 20) (40, 60) (255, 0, 0) 2 1, label_text]\<rparr>]
   \<and> (rat_of_int 10, rat_of_int 20) \<noteq> (21 / 2, 41 / 2)
   \<and> (rat_of_int 40, rat_of_int 60) \<noteq> (21 / 2 + 121 / 4, 41 / 2 + 161 / 4)"
  by (simp add: loop_body_def Tracker_update_def stub_tracker_def emit_def waitKey_def
      exact_floats_def fresh_def drawText_def default_color_def label_text_def floor_eq_iff
      Let_def)

text \<open>
  C3, amended: in a pass where the update succeeds with the box \<open>(x, y, w, h)\<close>, the frame
  shown is the frame read with a rectangle from \<open>(int(x), int(y))\<close> to
  \<open>(int(x + w), int(y + h))\<close> drawn on it (and then the label); when the box holds ints
  these corners are \<open>(x, y)\<close> and \<open>(x + w, y + h)\<close>. With a tracker whose update always
  succeeds with the seed box \<open>(1300, 405, 160, 120)\<close>, the first frame shown carries the
  rectangle from \<open>(1300, 405)\<close> to \<open>(1460, 525)\<close>.
\<close>

theorem rectangle_corners:
  "(Tracker_update (tracker s) f = ((True, (x, y, w, h)), tr) \<longrightarrow>
      trace (fst (loop_body f s)) = trace s @
        [TrackerUpdate f True (x, y, w, h),
         ImShow ''Frame''
           (f\<lparr>drawn := drawn f @
                [Rectangle (py_int (arith s) x, py_int (arith s) y)
                   (py_int (arith s) (py_add (arith s) x w),
                    py_int (arith s) (py_add (arith s) y h)) (255, 0, 0) 2 1,
                 label_text]\<rparr>),
         WaitKey (fst (waitKey (keys s)))])
   \<and> (Tracker_update (tracker s) f = ((True, (PyInt a, PyInt b, PyInt c, PyInt d)), tr) \<longrightarrow>
      trace (fst (loop_body f s)) = trace s @
        [TrackerUpdate f True (PyInt a, PyInt b, PyInt c, PyInt d),
         ImShow ''Frame''
           (f\<lparr>drawn := drawn f @
                [Rectangle (a, b) (a + c, b + d) (255, 0, 0) 2 1, label_text]\<rparr>),
         WaitKey (fst (waitKey (keys s)))])
   \<and> (file_opens e \<and> file_frames e = f0 # f1 # fs
        \<and> (\<forall>g st. fst (tr_update (cv2_create e GOTURN) g st) = (True, seed_bbox)) \<longrightarrow>
      shown (trace (snd (main e))) \<noteq> []
      \<and> hd (shown (trace (snd (main e)))) =
         \<lparr>pixels = f1,
          drawn = [Rectangle (1300, 405) (1460, 525) (255, 0, 0) 2 1, label_text]\<rparr>)"
proof (rule conjI; (rule conjI)?; rule impI)
  assume "Tracker_update (tracker s) f = ((True, (x, y, w, h)), tr)"
  then show "trace (fst (loop_body f s)) = trace s @
        [TrackerUpdate f True (x, y, w, h),
         ImShow ''Frame''
           (f\<lparr>drawn := drawn f @
                [Rectangle (py_int (arith s) x, py_int (arith s) y)
                   (py_int (arith s) (py_add (arith s) x w),
                    py_int (arith s) (py_add (arith s) y h)) (255, 0, 0) 2 1,
                 label_text]\<rparr>),
         WaitKey (fst (waitKey (keys s)))]"
    by (simp add: loop_body_unfold [of s f True "(x, y, w, h)" tr] annotate_True)
next
  assume "Tracker_update (tracker s) f = ((True, (PyInt a, PyInt b, PyInt c, PyInt d)), tr)"
  then show "trace (fst (loop_body f s)) = trace s @
        [TrackerUpdate f True (PyInt a, PyInt b, PyInt c, PyInt d),
         ImShow ''Frame''
           (f\<lparr>drawn := drawn f @
                [Rectangle (a, b) (a + c, b + d) (255, 0, 0) 2 1, label_text]\<rparr>),
         WaitKey (fst (waitKey (keys s)))]"
    by (simp add: loop_body_unfold [of s f True "(PyInt a, PyInt b, PyInt c, PyInt d)" tr]
        annotate_True)
next
  assume h: "file_opens e \<and> file_frames e = f0 # f1 # fs
        \<and> (\<forall>g st. fst (tr_update (cv2_create e GOTURN) g st) = (True, seed_bbox))"
  let ?s = "snd (startup e)"
  note m = main_opened [of e f0 "f1 # fs"]
  obtain tr where u: "Tracker_update (tracker ?s) (fresh f1) = ((True, seed_bbox), tr)"
    using h m(7) Tracker_update_fst [of "tracker ?s" "fresh f1"]
    by (metis prod.collapse)
  from loop_first_shown [OF _ _ u] h m obtain gs where
    "shown (trace (loop ?s)) = annotate (arith ?s) (fresh f1) True seed_bbox # gs" by auto
  then show "shown (trace (snd (main e))) \<noteq> []
      \<and> hd (shown (trace (snd (main e)))) =
         \<lparr>pixels = f1,
          drawn = [Rectangle (1300, 405) (1460, 525) (255, 0, 0) 2 1, label_text]\<rparr>"
    using h m(1) by (simp add: cleanup_trace shown_append seed_bbox_def annotate_True fresh_def)
qed

theorem rectangle_corners_witness:
  "Tracker_update
     (stub_tracker True (PyFloat (21 / 2), PyFloat (41 / 2), PyFloat (121 / 4), PyFloat (161 / 4)))
     (fresh 1) =
     ((True, (PyFloat (21 / 2), PyFloat (41 / 2), PyFloat (121 / 4), PyFloat (161 / 4))),
      stub_tracker True (PyFloat (21 / 2), PyFloat (41 / 2), PyFloat (121 / 4), PyFloat (161 / 4)))
   \<and> trace (fst (loop_body (fresh 1)
        \<lparr>arith = exact_floats, ok = True, frame = Some (fresh 0), bbox = seed_bbox,
         tracker = stub_tracker True
           (PyFloat (21 / 2), PyFloat (41 / 2), PyFloat (121 / 4), PyFloat (161 / 4)),
         video = \<lparr>opened = True, remaining = []\<rparr>, keys = [], trace = []\<rparr>)) =
       [TrackerUpdate (fresh 1) True
          (PyFloat (21 / 2), PyFloat (41 / 2), PyFloat (121 / 4), PyFloat (161 / 4)),
        ImShow ''Frame''
          \<lparr>pixels = 1, drawn = [Rectangle (10, 20) (40, 60) (255, 0, 0) 2 1, label_text]\<rparr>,
        WaitKey (- 1)]
   \<and> Tracker_update (stub_tracker True (PyInt 10, PyInt 20, PyInt 30, PyInt 40)) (fresh 1) =
     ((True, (PyInt 10, PyInt 20, PyInt 30, PyInt 40)),
      stub_tracker True (PyInt 10, PyInt 20, PyInt 30, PyInt 40))
   \<and> trace (fst (loop_body (fresh 1)
        \<lparr>arith = exact_floats, ok = True, frame = Some (fresh 0), bbox = seed_bbox,
         tracker = stub_tracker True (PyInt 10, PyInt 20, PyInt 30, PyInt 40),
         video = \<lparr>opened = True, remaining = []\<rparr>, keys = [], trace = []\<rparr>)) =
       [TrackerUpdate (fresh 1) True (PyInt 10, PyInt 20, PyInt 30, PyInt 40),
        ImShow ''Frame''
          \<lparr>pixels = 1, drawn = [Rectangle (10, 20) (40, 60) (255, 0, 0) 2 1, label_text]\<rparr>,
        WaitKey (- 1)]
   \<and> file_opens (stub_env (stub_tracker True seed_bbox) True [0, 1, 2] [])
   \<and> file_frames (stub_env (stub_tracker True seed_bbox) True [0, 1, 2] []) = 0 # 1 # [2]
   \<and> (\<forall>g st. fst (tr_update
          (cv2_create (stub_env (stub_tracker True seed_bbox) True [0, 1, 2] []) GOTURN) g st) =
        (True, seed_bbox))
   \<and> hd (shown (trace (snd (main (stub_env (stub_tracker True seed_bbox) True [0, 1, 2] []))))) =
       \<lparr>pixels = 1,
        drawn = [Rectangle (1300, 405) (1460, 525) (255, 0, 0) 2 1, label_text]\<rparr>"
proof -
  let ?fb = "(PyFloat (21 / 2), PyFloat (41 / 2), PyFloat (121 / 4), PyFloat (161 / 4)) :: rat bbox"
  let ?ib = "(PyInt 10, PyInt 20, PyInt 30, PyInt 40) :: rat bbox"
  let ?sf = "\<lparr>arith = exact_floats, ok = True, frame = Some (fresh 0), bbox = seed_bbox,
         tracker = stub_tracker True ?fb,
         video = \<lparr>opened = True, remaining = []\<rparr>, keys = [], trace = []\<rparr>"
  let ?si = "\<lparr>arith = exact_floats, ok = True, frame = Some (fresh 0), bbox = seed_bbox,
         tracker = stub_tracker True ?ib,
         video = \<lparr>opened = True, remaining = []\<rparr>, keys = [], trace = []\<rparr>"
  let ?e = "stub_env (stub_tracker True seed_bbox) True [0, 1, 2] []"
  have hf: "Tracker_update (stub_tracker True ?fb) (fresh 1) = ((True, ?fb), stub_tracker True ?fb)"
    by (simp add: Tracker_update_def stub_tracker_def)
  have hi: "Tracker_update (stub_tracker True ?ib) (fresh 1) = ((True, ?ib), stub_tracker True ?ib)"
    by (simp add: Tracker_update_def stub_tracker_def)
  have k: "file_opens ?e \<and> file_frames ?e = 0 # 1 # [2]
   \<and> (\<forall>g st. fst (tr_update (cv2_create ?e GOTURN) g st) = (True, seed_bbox))"
    by (simp add: stub_env_def stub_tracker_def)
  have t: "(10 :: int) + 30 = 40" "(20 :: int) + 40 = 60" by simp_all
  note a = rectangle_corners
    [where s = ?sf and f = "fresh 1" and x = "PyFloat (21 / 2)" and y = "PyFloat (41 / 2)"
       and w = "PyFloat (121 / 4)" and h = "PyFloat (161 / 4)" and tr = "stub_tracker True ?fb"
       and a = 10 and b = 20 and c = 30 and d = 40 and e = ?e and ?f0.0 = 0 and ?f1.0 = 1
       and fs = "[2]"]
  note b = rectangle_corners
    [where s = ?si and f = "fresh 1" and x = "PyInt 10" and y = "PyInt 20"
       and w = "PyInt 30" and h = "PyInt 40" and tr = "stub_tracker True ?ib"
       and a = 10 and b = 20 and c = 30 and d = 40 and e = ?e and ?f0.0 = 0 and ?f1.0 = 1
       and fs = "[2]"]
  show ?thesis
    using hf hi k a b
    by (simp add: fresh_def waitKey_def exact_floats_def floor_eq_iff)
qed

text \<open>
  C4: in a pass where the update fails, the frame shown is the frame read with the text
  "Tracking failure detected" drawn on it (and then the label), and no rectangle. With a
  tracker whose update always fails, every frame shown carries the failure text and no
  rectangle, and there is one such frame for each pass of the loop.
\<close>

theorem failure_text_and_no_rectangle:
  "(Tracker_update (tracker s) f = ((False, b), tr) \<longrightarrow>
      trace (fst (loop_body f s)) = trace s @
        [TrackerUpdate f False b,
         ImShow ''Frame'' (f\<lparr>drawn := drawn f @ [failure_text, label_text]\<rparr>),
         WaitKey (fst (waitKey (keys s)))])
   \<and> (file_opens e \<and> file_frames e \<noteq> []
        \<and> (\<forall>g st. \<not> fst (fst (tr_update (cv2_create e GOTURN) g st))) \<longrightarrow>
      list_all shows_failure (shown (trace (snd (main e))))
      \<and> length (shown (trace (snd (main e)))) =
          passes (length (file_frames e) - 1) (key_presses e))"
proof (intro conjI impI)
  assume "Tracker_update (tracker s) f = ((False, b), tr)"
  then show "trace (fst (loop_body f s)) = trace s @
        [TrackerUpdate f False b,
         ImShow ''Frame'' (f\<lparr>drawn := drawn f @ [failure_text, label_text]\<rparr>),
         WaitKey (fst (waitKey (keys s)))]"
    by (simp add: loop_body_unfold [of s f False b tr] annotate_False)
next
  assume h: "file_opens e \<and> file_frames e \<noteq> []
        \<and> (\<forall>g st. \<not> fst (fst (tr_update (cv2_create e GOTURN) g st)))"
  then obtain f0 fs where fr: "file_frames e = f0 # fs"
    by (cases "file_frames e") auto
  let ?s = "snd (startup e)"
  note m = main_opened [of e f0 fs]
  have "\<forall>g st. \<not> fst (fst (tr_update (tracker ?s) g st))"
    using h fr m(7) by simp
  from loop_shown_failing [OF this] obtain gs where
    "shown (trace (loop ?s)) = shown (trace ?s) @ gs" and "list_all shows_failure gs"
    by blast
  then show "list_all shows_failure (shown (trace (snd (main e))))"
    using h fr m(1,6) by (simp add: cleanup_trace shown_append)
  show "length (shown (trace (snd (main e)))) =
          passes (length (file_frames e) - 1) (key_presses e)"
    using h fr m loop_num_shown [of ?s] by (simp add: cleanup_trace shown_append)
qed

theorem failure_text_and_no_rectangle_witness:
  "Tracker_update (stub_tracker False (PyInt 0, PyInt 0, PyInt 0, PyInt 0)) (fresh 1) =
     ((False, (PyInt 0, PyInt 0, PyInt 0, PyInt 0)), stub_tracker False (PyInt 0, PyInt 0, PyInt 0, PyInt 0))
   \<and> trace (fst (loop_body (fresh 1)
        \<lparr>arith = exact_floats, ok = True, frame = Some (fresh 0), bbox = seed_bbox,
         tracker = stub_tracker False (PyInt 0, PyInt 0, PyInt 0, PyInt 0),
         video = \<lparr>opened = True, remaining = []\<rparr>, keys = [], trace = []\<rparr>)) =
       [TrackerUpdate (fresh 1) False (PyInt 0, PyInt 0, PyInt 0, PyInt 0),
        ImShow ''Frame'' \<lparr>pixels = 1, drawn = [failure_text, label_text]\<rparr>,
        WaitKey (- 1)]
   \<and> file_opens (stub_env (stub_tracker False (PyInt 0, PyInt 0, PyInt 0, PyInt 0)) True [0, 1, 2] [])
   \<and> file_frames (stub_env (stub_tracker False (PyInt 0, PyInt 0, PyInt 0, PyInt 0)) True [0, 1, 2] []) \<noteq> []
   \<and> (\<forall>g st. \<not> fst (fst (tr_update
          (cv2_create (stub_env (stub_tracker False (PyInt 0, PyInt 0, PyInt 0, PyInt 0)) True [0, 1, 2] []) GOTURN) g st)))
   \<and> list_all shows_failure
        (shown (trace (snd (main (stub_env (stub_tracker False (PyInt 0, PyInt 0, PyInt 0, PyInt 0)) True [0, 1, 2] [])))))
   \<and> length (shown (trace (snd (main (stub_env (stub_tracker False (PyInt 0, PyInt 0, PyInt 0, PyInt 0)) True [0, 1, 2] []))))) = 2"
proof -
  have h: "Tracker_update (stub_tracker False (PyInt 0, PyInt 0, PyInt 0, PyInt 0)) (fresh 1) =
     ((False, (PyInt 0, PyInt 0, PyInt 0, PyInt 0)), stub_tracker False (PyInt 0, PyInt 0, PyInt 0, PyInt 0))"
    by (simp add: Tracker_update_def stub_tracker_def)
  have k: "file_opens (stub_env (stub_tracker False (PyInt 0, PyInt 0, PyInt 0, PyInt 0)) True [0, 1, 2] [])
   \<and> file_frames (stub_env (stub_tracker False (PyInt 0, PyInt 0, PyInt 0, PyInt 0)) True [0, 1, 2] []) \<noteq> []
   \<and> (\<forall>g st. \<not> fst (fst (tr_update
          (cv2_create (stub_env (stub_tracker False (PyInt 0, PyInt 0, PyInt 0, PyInt 0)) True [0, 1, 2] []) GOTURN) g st)))"
    by (simp add: stub_env_def stub_tracker_def)
  have p: "passes (length (file_frames (stub_env (stub_tracker False (PyInt 0, PyInt 0, PyInt 0, PyInt 0)) True [0, 1, 2] [])) - 1)
      (key_presses (stub_env (stub_tracker False (PyInt 0, PyInt 0, PyInt 0, PyInt 0)) True [0, 1, 2] [])) = 2"
    by (simp add: stub_env_def passes_def)
  show ?thesis
    using h k p failure_text_and_no_rectangle
      [of "\<lparr>arith = exact_floats, ok = True, frame = Some (fresh 0), bbox = seed_bbox,
         tracker = stub_tracker False (PyInt 0, PyInt 0, PyInt 0, PyInt 0),
         video = \<lparr>opened = True, remaining = []\<rparr>, keys = [], trace = []\<rparr>"
        "fresh 1" "(PyInt 0, PyInt 0, PyInt 0, PyInt 0)" "stub_tracker False (PyInt 0, PyInt 0, PyInt 0, PyInt 0)"
        "stub_env (stub_tracker False (PyInt 0, PyInt 0, PyInt 0, PyInt 0)) True [0, 1, 2] []"]
    by (simp add: fresh_def waitKey_def)
qed

text \<open>
  C8: the loop ends when a frame read fails or when a poll returns \<open>q\<close>, and only
  then. The calls the loop adds to the trace are not empty, the last of them is a failed
  read or a poll that returns \<open>q\<close>, and none before the last is either: the loop goes on
  through every successful read and every other poll, and stops at the first of the
  two. On an open video the number of updates made is the number of passes that the
  frames left and the polls determine.
\<close>

theorem loop_ends_on_stream_end_or_quit:
  "take (length (trace s)) (trace (loop s)) = trace s
   \<and> drop (length (trace s)) (trace (loop s)) \<noteq> []
   \<and> stops (last (trace (loop s)))
   \<and> list_all (\<lambda>e. \<not> stops e) (butlast (drop (length (trace s)) (trace (loop s))))
   \<and> (opened (video s) \<longrightarrow>
        num_updates (trace (loop s)) =
          num_updates (trace s) + passes (length (remaining (video s))) (keys s))"
proof -
  obtain es where es: "trace (loop s) = trace s @ es" "es \<noteq> []" "stops (last es)"
    "list_all (\<lambda>e. \<not> stops e) (butlast es)"
    using loop_stops [of s] by blast
  then show ?thesis using loop_num_updates [of s] by simp
qed

theorem loop_ends_on_stream_end_or_quit_witness:
  "opened (video (snd (startup (stub_env (stub_tracker False (PyInt 0, PyInt 0, PyInt 0, PyInt 0)) True [0, 1, 2, 3] [-1, 113, -1]))))
   \<and> last (trace (loop (snd (startup (stub_env (stub_tracker False (PyInt 0, PyInt 0, PyInt 0, PyInt 0)) True [0, 1, 2, 3] [-1, 113, -1])))))
       = WaitKey 113
   \<and> stops (last (trace (loop (snd (startup (stub_env (stub_tracker False (PyInt 0, PyInt 0, PyInt 0, PyInt 0)) True [0, 1, 2, 3] [-1, 113, -1]))))))
   \<and> num_updates (trace (loop (snd (startup (stub_env (stub_tracker False (PyInt 0, PyInt 0, PyInt 0, PyInt 0)) True [0, 1, 2, 3] [-1, 113, -1]))))) = 2"
proof -
  let ?s = "snd (startup (stub_env (stub_tracker False (PyInt 0, PyInt 0, PyInt 0, PyInt 0)) True [0, 1, 2, 3] [-1, 113, -1]))"
  have o: "opened (video ?s)" by (simp add: run_defs)
  have l: "last (trace (loop ?s)) = WaitKey 113" by (simp add: run_defs)
  have p: "num_updates (trace ?s) + passes (length (remaining (video ?s))) (keys ?s) = 2"
    by (simp add: run_defs passes_def num_updates_def)
  show ?thesis using o l p loop_ends_on_stream_end_or_quit [of ?s] by simp
qed

text \<open>
  C5: when the video does not open, the script prints the error and exits; its whole
  trace is the creation of the tracker, the opening attempt, one failed read, the
  message and the exit, with no tracker initialisation and no update. A failed update
  does not end the script: whether a pass breaks out of the loop is the key test alone,
  whatever the update returned, and on an open video with a frame the script finishes
  normally after the number of updates that the frames and the polls determine, for
  every tracker.
\<close>

theorem open_failure_exits_update_failure_goes_on:
  "(\<not> file_opens e \<longrightarrow>
      fst (main e) = Exited
      \<and> trace (snd (main e)) =
          [TrackerCreate GOTURN, CaptureOpen ''race_car.mp4'', Read False,
           Print ''Error opening video file'', Exit]
      \<and> num_inits (trace (snd (main e))) = 0
      \<and> num_updates (trace (snd (main e))) = 0)
   \<and> snd (loop_body f s) = is_quit (fst (waitKey (keys s)))
   \<and> (file_opens e \<and> file_frames e \<noteq> [] \<longrightarrow>
        fst (main e) = Finished
        \<and> num_updates (trace (snd (main e))) =
            passes (length (file_frames e) - 1) (key_presses e))"
proof (intro conjI impI)
  assume "\<not> file_opens e"
  then have m: "main e = (Exited, snd (startup e))"
    and t: "trace (snd (startup e)) =
       [TrackerCreate GOTURN, CaptureOpen ''race_car.mp4'', Read False,
        Print ''Error opening video file'', Exit]"
    by (simp_all add: main_def startup_closed)
  show "fst (main e) = Exited" using m by simp
  show "trace (snd (main e)) =
          [TrackerCreate GOTURN, CaptureOpen ''race_car.mp4'', Read False,
           Print ''Error opening video file'', Exit]" using m t by simp
  show "num_inits (trace (snd (main e))) = 0" using m t by (simp add: num_inits_def)
  show "num_updates (trace (snd (main e))) = 0" using m t by (simp add: num_updates_def)
next
  show "snd (loop_body f s) = is_quit (fst (waitKey (keys s)))"
    by (cases "Tracker_update (tracker s) f") (auto simp: loop_body_unfold)
next
  assume h: "file_opens e \<and> file_frames e \<noteq> []"
  then obtain f0 fs where fr: "file_frames e = f0 # fs"
    by (cases "file_frames e") auto
  note m = main_opened [of e f0 fs]
  show "fst (main e) = Finished" using h fr m(1) by simp
  show "num_updates (trace (snd (main e))) =
            passes (length (file_frames e) - 1) (key_presses e)"
    using h fr m loop_num_updates [of "snd (startup e)"]
    by (simp add: cleanup_trace num_updates_append) (simp add: num_updates_def)
qed


theorem open_failure_exits_update_failure_goes_on_witness:
  "\<not> file_opens (stub_env (stub_tracker False (PyInt 0, PyInt 0, PyInt 0, PyInt 0)) False [0, 1, 2] [])
   \<and> fst (main (stub_env (stub_tracker False (PyInt 0, PyInt 0, PyInt 0, PyInt 0)) False [0, 1, 2] [])) = Exited
   \<and> num_inits (trace (snd (main (stub_env (stub_tracker False (PyInt 0, PyInt 0, PyInt 0, PyInt 0)) False [0, 1, 2] [])))) = 0
   \<and> num_updates (trace (snd (main (stub_env (stub_tracker False (PyInt 0, PyInt 0, PyInt 0, PyInt 0)) False [0, 1, 2] [])))) = 0
   \<and> file_opens (stub_env (stub_tracker False (PyInt 0, PyInt 0, PyInt 0, PyInt 0)) True [0, 1, 2] [])
   \<and> file_frames (stub_env (stub_tracker False (PyInt 0, PyInt 0, PyInt 0, PyInt 0)) True [0, 1, 2] []) \<noteq> []
   \<and> fst (main (stub_env (stub_tracker False (PyInt 0, PyInt 0, PyInt 0, PyInt 0)) True [0, 1, 2] [])) = Finished
   \<and> num_updates (trace (snd (main (stub_env (stub_tracker False (PyInt 0, PyInt 0, PyInt 0, PyInt 0)) True [0, 1, 2] [])))) = 2"
proof -
  let ?e1 = "stub_env (stub_tracker False (PyInt 0, PyInt 0, PyInt 0, PyInt 0)) False [0, 1, 2] []"
  let ?e2 = "stub_env (stub_tracker False (PyInt 0, PyInt 0, PyInt 0, PyInt 0)) True [0, 1, 2] []"
  have a: "\<not> file_opens ?e1" by (simp add: stub_env_def)
  have b: "file_opens ?e2 \<and> file_frames ?e2 \<noteq> []" by (simp add: stub_env_def)
  have p: "passes (length (file_frames ?e2) - 1) (key_presses ?e2) = 2"
    by (simp add: stub_env_def passes_def)
  show ?thesis
    using a b p
      open_failure_exits_update_failure_goes_on
        [where e = ?e1 and f = "fresh 1" and s = "snd (startup ?e2)"]
      open_failure_exits_update_failure_goes_on
        [where e = ?e2 and f = "fresh 1" and s = "snd (startup ?e2)"]
    by (simp add: num_inits_def num_updates_def)
qed

text \<open>
  C6: on the normal exit path the video is opened once and the window \<open>Object Tracker\<close>
  is created once, but \<open>video.release()\<close> and \<open>cv2.destroyAllWindows()\<close> are each
  called twice: lines 117 and 118 are repeated at lines 121 and 122.
\<close>

theorem release_called_twice:
  assumes "file_opens e" and "file_frames e \<noteq> []"
  shows "fst (main e) = Finished
    \<and> count_list (trace (snd (main e))) (CaptureOpen ''race_car.mp4'') = 1
    \<and> count_list (trace (snd (main e))) (NamedWindow ''Object Tracker'') = 1
    \<and> count_list (trace (snd (main e))) Release = 2
    \<and> count_list (trace (snd (main e))) DestroyAllWindows = 2"
proof -
  obtain f0 fs where fr: "file_frames e = f0 # fs"
    using assms(2) by (cases "file_frames e") auto
  obtain r tr where i: "Tracker_init (cv2_create e GOTURN) (fresh f0) seed_bbox = (r, tr)"
    by (metis surj_pair)
  let ?s = "snd (startup e)"
  note st = startup_opened [OF assms(1) fr i]
  obtain es where es: "trace (loop ?s) = trace ?s @ es" "list_all loop_event es"
    using loop_appends [of ?s] by blast
  have m: "main e = (Finished, cleanup (loop ?s))"
    using main_opened(1) [OF assms(1) fr] .
  have c: "count_list es (CaptureOpen ''race_car.mp4'') = 0"
    "count_list es (NamedWindow ''Object Tracker'') = 0"
    "count_list es Release = 0" "count_list es DestroyAllWindows = 0"
    using es(2) by (simp_all add: count_list_loop_events)
  show ?thesis using m es(1) c st by (simp add: cleanup_trace)
qed

theorem release_called_twice_witness:
  "file_opens (stub_env (stub_tracker True seed_bbox) True [0] [])
   \<and> file_frames (stub_env (stub_tracker True seed_bbox) True [0] []) \<noteq> []
   \<and> fst (main (stub_env (stub_tracker True seed_bbox) True [0] [])) = Finished
   \<and> count_list (trace (snd (main (stub_env (stub_tracker True seed_bbox) True [0] [])))) Release = 2
   \<and> count_list (trace (snd (main (stub_env (stub_tracker True seed_bbox) True [0] []))))
        DestroyAllWindows = 2"
  using release_called_twice [of "stub_env (stub_tracker True seed_bbox) True [0] []"]
  by (simp add: stub_env_def)

end
